theory Spec2Isabelle
  imports Main
begin

section \<open>Strings\<close>

text \<open>
  Text handled by \<^verbatim>\<open>app.py\<close> is Python \<^verbatim>\<open>str\<close>. A character is modelled by a
  \<^typ>\<open>char\<close>, read as a code point below 256. \<^verbatim>\<open>str.isspace\<close> and
  \<^verbatim>\<open>str.lower\<close> are written out for that range.
\<close>

definition is_space :: "char \<Rightarrow> bool" where
  "is_space c =
     (let n = (of_char c :: nat)
      in (9 \<le> n \<and> n \<le> 13) \<or> (28 \<le> n \<and> n \<le> 32) \<or> n = 133 \<or> n = 160)"

definition lstrip :: "string \<Rightarrow> string" where
  "lstrip s = dropWhile is_space s"

definition rstrip :: "string \<Rightarrow> string" where
  "rstrip s = rev (dropWhile is_space (rev s))"

definition strip :: "string \<Rightarrow> string" where
  "strip s = rstrip (lstrip s)"

definition lower_char :: "char \<Rightarrow> char" where
  "lower_char c =
     (let n = (of_char c :: nat)
      in if (65 \<le> n \<and> n \<le> 90) \<or> (192 \<le> n \<and> n \<le> 222 \<and> n \<noteq> 215)
         then char_of (n + 32) else c)"

definition lower :: "string \<Rightarrow> string" where
  "lower s = map lower_char s"

definition endswith :: "string \<Rightarrow> string \<Rightarrow> bool" where
  "endswith s suffix =
     (length suffix \<le> length s \<and> drop (length s - length suffix) s = suffix)"

fun join :: "string \<Rightarrow> string list \<Rightarrow> string" where
  "join sep [] = []"
| "join sep [x] = x"
| "join sep (x # y # ys) = x @ sep @ join sep (y # ys)"

section \<open>Dates\<close>

text \<open>
  \<^verbatim>\<open>datetime.date\<close> is a (year, month, day) triple; Python compares two dates by
  comparing these triples lexicographically. \<^verbatim>\<open>datetime.datetime\<close> adds a time of
  day, kept here in microseconds since midnight; \<^verbatim>\<open>.date()\<close> forgets it.
\<close>

record cal_date =
  year :: int
  month :: int
  day :: int

definition date_lt :: "cal_date \<Rightarrow> cal_date \<Rightarrow> bool" where
  "date_lt a b =
     (year a < year b \<or>
      (year a = year b \<and> (month a < month b \<or> (month a = month b \<and> day a < day b))))"

definition date_gt :: "cal_date \<Rightarrow> cal_date \<Rightarrow> bool" where
  "date_gt a b = date_lt b a"

definition date_le :: "cal_date \<Rightarrow> cal_date \<Rightarrow> bool" where
  "date_le a b =
     (year a < year b \<or>
      (year a = year b \<and> (month a < month b \<or> (month a = month b \<and> day a \<le> day b))))"

record datetime =
  date_part :: cal_date
  time_part :: nat

definition time_min :: nat where
  "time_min = 0"

definition combine :: "cal_date \<Rightarrow> nat \<Rightarrow> datetime" where
  "combine d t = \<lparr>date_part = d, time_part = t\<rparr>"

definition sentinel_date :: cal_date where
  "sentinel_date = \<lparr>year = 1900, month = 1, day = 1\<rparr>"

section \<open>Documents and the index directory\<close>

text \<open>
  The stored fields of the schema built in \<^verbatim>\<open>ensure_index\<close>. A hit or a listed
  document is a dictionary of stored fields; \<^verbatim>\<open>patient_id\<close> and \<^verbatim>\<open>date\<close> are read
  with \<^verbatim>\<open>.get\<close>, so they may be missing.
\<close>

record document =
  doc_id :: string
  title :: string
  patient_id :: "string option"
  date :: "datetime option"
  content :: string

type_synonym hit = document

text \<open>
  The directory \<^verbatim>\<open>whoosh_index\<close>: missing, or holding files that
  \<^verbatim>\<open>index.open_dir\<close> reads as an index with the given documents, or holding files
  on which \<^verbatim>\<open>index.open_dir\<close> raises. The directory holds regular files only, as
  Whoosh writes it.
\<close>

datatype index_files = Readable "document list" | Corrupt

type_synonym location = "index_files option"

datatype message = Warning string | Success string | Error string | Info string

text \<open>
  What the libraries do is not part of \<^verbatim>\<open>app.py\<close>; it is a parameter of the model.
  \<^item> \<open>w_search ix q k\<close>: \<^verbatim>\<open>searcher.search(parser.parse(q), limit=k)\<close> over the
    committed documents \<open>ix\<close>, the hits in rank order; \<open>None\<close> when the call raises.
  \<^item> \<open>w_add d\<close>: \<^verbatim>\<open>writer.add_document\<close>; \<open>Some e\<close> when it raises with text \<open>e\<close>.
  \<^item> \<open>pdf_pages raw\<close>: \<^verbatim>\<open>page.extract_text()\<close> of each page that \<^verbatim>\<open>pdfplumber\<close>
    finds, or \<open>Inl e\<close> when it raises with text \<open>e\<close>.
  \<^item> \<open>decode raw\<close>: \<^verbatim>\<open>raw.decode(errors="ignore")\<close>.
\<close>

record library =
  w_search :: "document list \<Rightarrow> string \<Rightarrow> int \<Rightarrow> hit list option"
  w_add :: "document \<Rightarrow> string option"
  pdf_pages :: "string \<Rightarrow> string + string option list"
  decode :: "string \<Rightarrow> string"

datatype error = Warned string | Uncaught

section \<open>Opening and rebuilding the index\<close>

text \<open>
  \<^verbatim>\<open>ensure_index\<close> (lines 52 to 72). The result is the directory afterwards, the
  documents of the index it returns, and the messages it shows: it calls no
  \<^verbatim>\<open>st.*\<close> function on any path.
\<close>

definition ensure_index :: "location \<Rightarrow> location \<times> document list \<times> message list" where
  "ensure_index dir =
     (case dir of
        None \<Rightarrow> (Some (Readable []), [], [])
      | Some files \<Rightarrow>
          (case files of
             Readable ds \<Rightarrow> (Some (Readable ds), ds, [])
           | Corrupt \<Rightarrow> (Some (Readable []), [], [])))"


text \<open>
  The same function on a path that may hold anything. The path \<^verbatim>\<open>whoosh_index\<close> is
  missing, or is not a directory, or is a directory with its entries in the order of
  \<^verbatim>\<open>os.listdir\<close>, each a regular file or a sub-directory, together with what
  \<^verbatim>\<open>index.open_dir\<close> makes of them. \<^verbatim>\<open>os.remove\<close> deletes a regular file and
  raises on a sub-directory; \<^verbatim>\<open>os.listdir\<close> raises on a path that is not a
  directory. Both are called inside the \<^verbatim>\<open>except\<close> block, so what they raise leaves
  \<^verbatim>\<open>ensure_index\<close>.
\<close>

datatype kind = RegularFile | SubDirectory

type_synonym listing = "(string \<times> kind) list"

datatype disk = Absent | NotADirectory | Dir listing index_files

datatype os_error = IsADirectoryError string | NotADirectoryError

text \<open>
  The loop \<^verbatim>\<open>for f in os.listdir(INDEX_DIR): os.remove(...)\<close> (lines 69 and 70) over
  the names listed, with the entries still in the directory: the entries left, and the
  exception that stopped the loop if one did.
\<close>

fun remove_each :: "listing \<Rightarrow> listing \<Rightarrow> listing \<times> os_error option" where
  "remove_each [] present = (present, None)"
| "remove_each ((f, RegularFile) # fs) present =
     remove_each fs (filter (\<lambda>e. fst e \<noteq> f) present)"
| "remove_each ((f, SubDirectory) # fs) present = (present, Some (IsADirectoryError f))"

text \<open>
  \<^verbatim>\<open>ensure_index\<close> (lines 52 to 72) on such a path; \<open>created\<close> are the files that
  \<^verbatim>\<open>index.create_in\<close> writes for an empty index. The result is the path afterwards,
  the exception that leaves the function or the documents of the index it returns, and the
  messages it shows.
\<close>

definition ensure_index_on_disk :: "listing \<Rightarrow> disk \<Rightarrow> disk \<times> (os_error + document list) \<times> message list" where
  "ensure_index_on_disk created d =
     (case d of
        Absent \<Rightarrow> (Dir created (Readable []), Inr [], [])
      | NotADirectory \<Rightarrow> (NotADirectory, Inl NotADirectoryError, [])
      | Dir entries files \<Rightarrow>
          (case files of
             Readable ds \<Rightarrow> (Dir entries (Readable ds), Inr ds, [])
           | Corrupt \<Rightarrow>
               (case remove_each entries entries of
                  (left, Some e) \<Rightarrow> (Dir left Corrupt, Inl e, [])
                | (left, None) \<Rightarrow> (Dir (left @ created) (Readable []), Inr [], []))))"

text \<open>A path holding regular files only, and the index directory it stands for.\<close>

definition regular_files :: "listing \<Rightarrow> bool" where
  "regular_files entries = list_all (\<lambda>e. snd e = RegularFile) entries"

fun as_location :: "disk \<Rightarrow> location" where
  "as_location Absent = None"
| "as_location NotADirectory = None"
| "as_location (Dir entries files) = Some files"

section \<open>Searching\<close>

text \<open>The post-filter loop over the hits (lines 211 to 228), one test per \<^verbatim>\<open>continue\<close>.\<close>

definition patient_mismatch :: "string \<Rightarrow> hit \<Rightarrow> bool" where
  "patient_mismatch pid_filter h =
     (pid_filter \<noteq> [] \<and>
      lower (case patient_id h of None \<Rightarrow> [] | Some p \<Rightarrow> p) \<noteq> lower pid_filter)"

definition before_from :: "cal_date option \<Rightarrow> hit \<Rightarrow> bool" where
  "before_from date_from h =
     (case date_from of
        None \<Rightarrow> False
      | Some a \<Rightarrow> (case date h of None \<Rightarrow> True | Some t \<Rightarrow> date_lt (date_part t) a))"

definition after_to :: "cal_date option \<Rightarrow> hit \<Rightarrow> bool" where
  "after_to date_to h =
     (case date_to of
        None \<Rightarrow> False
      | Some b \<Rightarrow> (case date h of None \<Rightarrow> True | Some t \<Rightarrow> date_gt (date_part t) b))"

fun post_filter :: "string \<Rightarrow> cal_date option \<Rightarrow> cal_date option \<Rightarrow> hit list \<Rightarrow> hit list \<Rightarrow> hit list" where
  "post_filter pid_filter date_from date_to [] filtered = filtered"
| "post_filter pid_filter date_from date_to (h # results) filtered =
     (if patient_mismatch pid_filter h then post_filter pid_filter date_from date_to results filtered
      else if before_from date_from h then post_filter pid_filter date_from date_to results filtered
      else if after_to date_to h then post_filter pid_filter date_from date_to results filtered
      else post_filter pid_filter date_from date_to results (filtered @ [h]))"



text \<open>
  One run of the script with the button "Search" pressed: the index is opened (line 123),
  the widgets are read (lines 193 to 201) and the handler runs (lines 202 to 228). The
  result is the directory afterwards and either the filtered hits or what stopped the
  search: the warning, or an exception of the library that nothing catches.
\<close>

definition search :: "library \<Rightarrow> location \<Rightarrow> string \<Rightarrow> int \<Rightarrow> string \<Rightarrow> cal_date option \<Rightarrow> cal_date option
    \<Rightarrow> location \<times> (error + hit list)" where
  "search L dir query_text k pid_filter date_from_input date_to =
     (let (dir1, ix, msgs) = ensure_index dir;
          date_from = (if date_from_input = Some sentinel_date then None else date_from_input)
      in if strip query_text = [] then (dir1, Inl (Warned ''Please enter a query.''))
         else (case w_search L ix query_text k of
                 None \<Rightarrow> (dir1, Inl Uncaught)
               | Some results \<Rightarrow> (dir1, Inr (post_filter pid_filter date_from date_to results []))))"

text \<open>\<^verbatim>\<open>searcher.documents()\<close> of the listing (lines 253 to 263): the stored documents.\<close>

definition documents :: "location \<Rightarrow> document list" where
  "documents dir = (case dir of Some (Readable ds) \<Rightarrow> ds | _ \<Rightarrow> [])"

section \<open>Indexing uploaded files\<close>

text \<open>\<^verbatim>\<open>extract_text_from_pdf\<close> (lines 74 to 82): the non-empty page texts, one per line.\<close>

definition extract_text_from_pdf :: "library \<Rightarrow> string \<Rightarrow> string + string" where
  "extract_text_from_pdf L file_bytes =
     (case pdf_pages L file_bytes of
        Inl e \<Rightarrow> Inl e
      | Inr pages \<Rightarrow>
          Inr (join [CHR 0x0A]
                 (concat (map (\<lambda>page_text. case page_text of
                                               None \<Rightarrow> []
                                             | Some t \<Rightarrow> if t = [] then [] else [t]) pages))))"

text \<open>An uploaded file: its name and its bytes.\<close>

record upload =
  name :: string
  data :: string

text \<open>The text of one uploaded file (lines 146 to 159), with the messages shown on the way.\<close>

definition read_content :: "library \<Rightarrow> upload \<Rightarrow> string \<times> message list" where
  "read_content L uf =
     (let raw = data uf; fname = name uf
      in if endswith (lower fname) ''.pdf''
         then (case extract_text_from_pdf L raw of
                 Inr text \<Rightarrow>
                   (text,
                    if strip text = []
                    then [Warning (''No text extracted from '' @ fname @
                            ''. It may be scanned; OCR is not enabled in this App.'')]
                    else [])
               | Inl e \<Rightarrow> ([], [Error (''Error extracting PDF text from '' @ fname @ '': '' @ e)]))
         else (decode L raw, []))"

text \<open>
  The application's files: the index directory and the folder \<^verbatim>\<open>uploaded_reports\<close>
  written by \<^verbatim>\<open>save_raw_file\<close>, a map from file name to bytes.
\<close>

record app_state =
  index_dir :: location
  uploaded_reports :: "string \<rightharpoonup> string"

text \<open>
  The loop over the uploaded files (lines 143 to 176). Each file comes with the reading
  of \<^verbatim>\<open>datetime.utcnow().strftime("%Y%m%d%H%M%S%f")\<close> taken in its iteration. The
  loop carries the documents added to the writer, the saved files and the messages.
\<close>

fun index_loop :: "library \<Rightarrow> string \<Rightarrow> string \<Rightarrow> cal_date \<Rightarrow> (upload \<times> string) list
    \<Rightarrow> document list \<times> (string \<rightharpoonup> string) \<times> message list
    \<Rightarrow> document list \<times> (string \<rightharpoonup> string) \<times> message list" where
  "index_loop L t_title t_patient t_date [] acc = acc"
| "index_loop L t_title t_patient t_date ((uf, ts) # rest) (added, files, msgs) =
     (let fname = name uf; raw = data uf;
          (text, msgs1) = read_content L uf;
          new_id = fname @ ''_'' @ ts;
          files1 = files(new_id @ ''_'' @ fname \<mapsto> raw);
          d = \<lparr>doc_id = new_id,
               title = (if t_title \<noteq> [] then t_title else fname),
               patient_id = Some (if t_patient \<noteq> [] then t_patient else []),
               date = Some (combine t_date time_min),
               content = text\<rparr>
      in case w_add L d of
           None \<Rightarrow>
             index_loop L t_title t_patient t_date rest
               (added @ [d], files1,
                msgs @ msgs1 @ [Success (''Indexed '' @ fname @ '' as '' @ [CHR 0x27] @ t_title @
                                  [CHR 0x27] @ '' (doc_id '' @ new_id @ '')'')])
         | Some e \<Rightarrow>
             index_loop L t_title t_patient t_date rest
               (added, files1, msgs @ msgs1 @ [Error (''Index error for '' @ fname @ '': '' @ e)]))"

text \<open>
  One run of the script with the form button "Index uploaded file(s)" pressed: the index
  is opened (line 123) and the handler runs (lines 136 to 177); \<^verbatim>\<open>writer.commit()\<close>
  makes the added documents part of the index.
\<close>

definition index_document :: "library \<Rightarrow> app_state \<Rightarrow> (upload \<times> string) list \<Rightarrow> string \<Rightarrow> string \<Rightarrow> cal_date
    \<Rightarrow> app_state \<times> message list" where
  "index_document L st uploaded t_title t_patient t_date =
     (let (dir1, ix, msgs0) = ensure_index (index_dir st)
      in if uploaded = [] then (st\<lparr>index_dir := dir1\<rparr>, [Warning ''Please upload at least one file.''])
         else if t_title = [] then (st\<lparr>index_dir := dir1\<rparr>, [Warning ''Please enter a report title.''])
         else (let (added, files, msgs) =
                     index_loop L t_title t_patient t_date uploaded ([], uploaded_reports st, [])
               in (\<lparr>index_dir = Some (Readable (ix @ added)), uploaded_reports = files\<rparr>, msgs)))"

section \<open>What the claims speak of\<close>

text \<open>Case-insensitive equality of a hit's stored patient id with a filter value.\<close>

definition same_patient :: "string \<Rightarrow> hit \<Rightarrow> bool" where
  "same_patient x h = (lower (case patient_id h of None \<Rightarrow> [] | Some p \<Rightarrow> p) = lower x)"

text \<open>A hit dated on or after a day, and on or before a day.\<close>

definition dated_from :: "cal_date \<Rightarrow> hit \<Rightarrow> bool" where
  "dated_from a h = (case date h of None \<Rightarrow> False | Some t \<Rightarrow> date_le a (date_part t))"

definition dated_to :: "cal_date \<Rightarrow> hit \<Rightarrow> bool" where
  "dated_to b h = (case date h of None \<Rightarrow> False | Some t \<Rightarrow> date_le (date_part t) b)"

text \<open>The inclusive range of the date predicate; an absent bound asks nothing.\<close>

definition within_range :: "cal_date option \<Rightarrow> cal_date option \<Rightarrow> cal_date \<Rightarrow> bool" where
  "within_range date_from date_to d =
     ((case date_from of None \<Rightarrow> True | Some a \<Rightarrow> date_le a d) \<and>
      (case date_to of None \<Rightarrow> True | Some b \<Rightarrow> date_le d b))"

text \<open>A restriction of the hits of a search that went through.\<close>

definition restrict :: "(hit \<Rightarrow> bool) \<Rightarrow> error + hit list \<Rightarrow> error + hit list" where
  "restrict P r = (case r of Inl e \<Rightarrow> Inl e | Inr hs \<Rightarrow> Inr (filter P hs))"

section \<open>Examples\<close>

text \<open>
  A library to run the examples with: the searcher returns the first \<open>k\<close> documents of
  the index whatever the query, every document is accepted by the writer, a PDF has one
  page holding its bytes as text, and decoding changes nothing.
\<close>

definition demo_library :: library where
  "demo_library =
     \<lparr>w_search = (\<lambda>ix q k. Some (take (nat k) ix)),
      w_add = (\<lambda>d. None),
      pdf_pages = (\<lambda>raw. Inr [Some raw]),
      decode = (\<lambda>raw. raw)\<rparr>"

definition ymd :: "int \<Rightarrow> int \<Rightarrow> int \<Rightarrow> cal_date" where
  "ymd y m d = \<lparr>year = y, month = m, day = d\<rparr>"

definition report :: "string \<Rightarrow> string \<Rightarrow> string \<Rightarrow> cal_date \<Rightarrow> string \<Rightarrow> document" where
  "report i t p d c =
     \<lparr>doc_id = i, title = t, patient_id = Some p, date = Some (combine d time_min), content = c\<rparr>"

definition doc_a :: document where
  "doc_a = report ''A'' ''Chest Xray'' ''P1'' (ymd 2024 1 5) ''fracture of left rib''"

definition doc_old :: document where
  "doc_old = report ''C'' ''Ledger'' ''P3'' (ymd 1899 12 31) ''fracture noted''"

definition doc_b :: document where
  "doc_b = report ''B'' ''Blood Panel'' ''P2'' (ymd 2024 2 10) ''normal glucose levels''"

definition file_a :: upload where
  "file_a = \<lparr>name = ''a.txt'', data = ''fracture of left rib''\<rparr>"

definition empty_state :: app_state where
  "empty_state = \<lparr>index_dir = None, uploaded_reports = Map.empty\<rparr>"

section \<open>Properties of the helpers\<close>

lemma ensure_index_readable: "fst (ensure_index dir) = Some (Readable (fst (snd (ensure_index dir))))"
  by (simp add: ensure_index_def split: option.splits index_files.splits)

lemma documents_ensure_index: "documents (fst (ensure_index dir)) = documents dir"
  by (simp add: ensure_index_def documents_def split: option.splits index_files.splits)

lemma post_filter_eq:
  "post_filter pid df dt results filtered =
     filtered @ filter (\<lambda>h. \<not> patient_mismatch pid h \<and> \<not> before_from df h \<and> \<not> after_to dt h) results"
  by (induction results arbitrary: filtered) simp_all

lemma date_le_iff: "date_le a b \<longleftrightarrow> \<not> date_lt b a"
  by (auto simp: date_le_def date_lt_def)

lemma date_le_refl: "date_le a a"
  by (simp add: date_le_def)

lemma not_before_from: "\<not> before_from (Some a) h \<longleftrightarrow> dated_from a h"
  by (simp add: before_from_def dated_from_def date_le_iff split: option.splits)

lemma not_after_to: "\<not> after_to (Some b) h \<longleftrightarrow> dated_to b h"
  by (simp add: after_to_def dated_to_def date_gt_def date_le_iff split: option.splits)


lemma ensure_index_documents: "fst (snd (ensure_index dir)) = documents dir"
  by (simp add: ensure_index_def documents_def split: option.splits index_files.splits)

lemma before_from_None: "before_from None h = False"
  by (simp add: before_from_def)

lemma after_to_None: "after_to None h = False"
  by (simp add: after_to_def)

lemma post_filter_patient:
  "pid \<noteq> [] \<Longrightarrow>
     post_filter pid df dt results [] = filter (same_patient pid) (post_filter [] df dt results [])"
  by (auto simp: post_filter_eq patient_mismatch_def same_patient_def intro!: filter_cong)

lemma post_filter_from:
  "post_filter pid (Some a) dt results [] = filter (dated_from a) (post_filter pid None dt results [])"
  by (auto simp: post_filter_eq not_before_from [symmetric] before_from_None intro!: filter_cong)

lemma post_filter_to:
  "post_filter pid df (Some b) results [] = filter (dated_to b) (post_filter pid df None results [])"
  by (auto simp: post_filter_eq not_after_to [symmetric] after_to_None intro!: filter_cong)

text \<open>The post-filter keeps the hits in the order the searcher gave them.\<close>

lemma post_filter_sorted_wrt:
  "sorted_wrt R results \<Longrightarrow> sorted_wrt R (post_filter pid df dt results [])"
  by (simp add: post_filter_eq sorted_wrt_filter)

text \<open>The three ways a run of the search ends.\<close>

lemma search_cases:
  "search L dir q k pid df dt =
     (fst (ensure_index dir),
      if strip q = [] then Inl (Warned ''Please enter a query.'')
      else case w_search L (documents dir) q k of
             None \<Rightarrow> Inl Uncaught
           | Some results \<Rightarrow>
               Inr (post_filter pid (if df = Some sentinel_date then None else df) dt results []))"
  by (cases "ensure_index dir")
     (auto simp: search_def Let_def ensure_index_documents [symmetric] split: option.splits)

section \<open>The patient filter\<close>

text \<open>
  Claim C1. With a patient id \<open>pid\<close> typed into the filter box, the search returns
  exactly the hits of the same search without the patient filter (same query, same limit,
  same dates) whose stored patient id equals \<open>pid\<close> up to case, in the same order:
  nothing is re-ranked and nothing is added. The box left empty is how the filter is
  absent, and then \<open>search\<close> is the second search itself.
\<close>

theorem search_patient_filter_subsequence:
  "pid \<noteq> [] \<Longrightarrow>
     search L dir q k pid df dt =
       (fst (search L dir q k [] df dt),
        restrict (same_patient pid) (snd (search L dir q k [] df dt)))"
  by (cases "w_search L (documents dir) q k")
     (simp_all add: search_cases restrict_def post_filter_patient)

theorem search_patient_filter_subsequence_witness:
  "''p1'' \<noteq> [] \<and>
   snd (search demo_library (Some (Readable [doc_a, doc_b])) ''fracture'' 10 [] None None) =
     Inr [doc_a, doc_b] \<and>
   search demo_library (Some (Readable [doc_a, doc_b])) ''fracture'' 10 ''p1'' None None =
     (Some (Readable [doc_a, doc_b]), Inr [doc_a])"
proof -
  have nonempty: "''p1'' \<noteq> []"
    by simp
  have plain: "search demo_library (Some (Readable [doc_a, doc_b])) ''fracture'' 10 [] None None =
      (Some (Readable [doc_a, doc_b]), Inr [doc_a, doc_b])"
    by (simp add: search_def ensure_index_def demo_library_def strip_def rstrip_def lstrip_def
          is_space_def patient_mismatch_def before_from_def after_to_def)
  have a: "same_patient ''p1'' doc_a"
    by code_simp
  have b: "\<not> same_patient ''p1'' doc_b"
    by code_simp
  show ?thesis
    using search_patient_filter_subsequence
      [OF nonempty, of demo_library "Some (Readable [doc_a, doc_b])" "''fracture''" 10 None None]
    by (simp add: plain restrict_def a b)
qed

section \<open>The date range\<close>

text \<open>
  Claim C2. In the post-filter loop, with the patient filter absent, a hit that has a date
  is kept exactly when it is among the searcher's hits and its day lies within the range:
  on or after \<open>date_from\<close> and on or before \<open>date_to\<close>, both bounds included, an absent
  bound asking nothing. So a hit dated on a bound stays and a hit dated any day before
  \<open>date_from\<close> or after \<open>date_to\<close> goes.
\<close>

theorem date_filter_inclusive:
  "date h = Some t \<Longrightarrow>
     h \<in> set (post_filter [] date_from date_to results []) \<longleftrightarrow>
     h \<in> set results \<and> within_range date_from date_to (date_part t)"
  by (auto simp: post_filter_eq patient_mismatch_def before_from_def after_to_def within_range_def
        date_gt_def date_le_iff split: option.splits)

theorem date_filter_inclusive_witness:
  "date doc_a = Some (combine (ymd 2024 1 5) time_min) \<and>
   doc_a \<in> set (post_filter [] (Some (ymd 2024 1 5)) (Some (ymd 2024 2 10)) [doc_a, doc_b] []) \<and>
   post_filter [] (Some (ymd 2024 1 5)) (Some (ymd 2024 2 10)) [doc_a, doc_b] [] = [doc_a, doc_b] \<and>
   post_filter [] (Some (ymd 2024 1 6)) (Some (ymd 2024 2 9)) [doc_a, doc_b] [] = [] \<and>
   post_filter [] None (Some (ymd 2024 2 9)) [doc_a, doc_b] [] = [doc_a] \<and>
   post_filter [] (Some (ymd 2024 1 6)) None [doc_a, doc_b] [] = [doc_b]"
proof -
  have d: "date doc_a = Some (combine (ymd 2024 1 5) time_min)"
    by (simp add: doc_a_def report_def)
  have r: "within_range (Some (ymd 2024 1 5)) (Some (ymd 2024 2 10))
      (date_part (combine (ymd 2024 1 5) time_min))"
    by (simp add: within_range_def date_le_def ymd_def combine_def)
  have m: "doc_a \<in> set [doc_a, doc_b]"
    by simp
  have "doc_a \<in> set (post_filter [] (Some (ymd 2024 1 5)) (Some (ymd 2024 2 10)) [doc_a, doc_b] [])"
    using date_filter_inclusive
      [OF d, of "Some (ymd 2024 1 5)" "Some (ymd 2024 2 10)" "[doc_a, doc_b]"] r m
    by blast
  moreover have "post_filter [] (Some (ymd 2024 1 5)) (Some (ymd 2024 2 10)) [doc_a, doc_b] [] =
      [doc_a, doc_b]"
    by (simp add: patient_mismatch_def before_from_def after_to_def date_gt_def date_lt_def
          doc_a_def doc_b_def report_def ymd_def combine_def)
  moreover have "post_filter [] (Some (ymd 2024 1 6)) (Some (ymd 2024 2 9)) [doc_a, doc_b] [] = []"
    by (simp add: patient_mismatch_def before_from_def after_to_def date_gt_def date_lt_def
          doc_a_def doc_b_def report_def ymd_def combine_def)
  moreover have "post_filter [] None (Some (ymd 2024 2 9)) [doc_a, doc_b] [] = [doc_a]"
    by (simp add: patient_mismatch_def before_from_def after_to_def date_gt_def date_lt_def
          doc_a_def doc_b_def report_def ymd_def combine_def)
  moreover have "post_filter [] (Some (ymd 2024 1 6)) None [doc_a, doc_b] [] = [doc_b]"
    by (simp add: patient_mismatch_def before_from_def after_to_def date_gt_def date_lt_def
          doc_a_def doc_b_def report_def ymd_def combine_def)
  ultimately show ?thesis
    using d by simp
qed

text \<open>
  Claim C10. A "From date" of 1900-01-01 is dropped before the search: the run is the run
  with no lower bound, so a hit of 1899 stays. Any other "From date" \<open>d\<close> keeps exactly
  the hits dated on or after \<open>d\<close>, and any "To date" \<open>e\<close>, 1900-01-01 included, keeps
  exactly the hits dated on or before \<open>e\<close>.
\<close>

theorem sentinel_date_from_dropped:
  "d \<noteq> sentinel_date \<Longrightarrow>
     search L dir q k pid (Some sentinel_date) dt = search L dir q k pid None dt \<and>
     snd (search L dir q k pid (Some d) dt) =
       restrict (dated_from d) (snd (search L dir q k pid None dt)) \<and>
     snd (search L dir q k pid df (Some e)) =
       restrict (dated_to e) (snd (search L dir q k pid df None))"
  by (cases "w_search L (documents dir) q k")
     (simp_all add: search_cases restrict_def post_filter_from post_filter_to)

theorem sentinel_date_from_dropped_witness:
  "ymd 1900 1 2 \<noteq> sentinel_date \<and>
   snd (search demo_library (Some (Readable [doc_old, doc_a])) ''fracture'' 10 []
          (Some sentinel_date) None) = Inr [doc_old, doc_a] \<and>
   snd (search demo_library (Some (Readable [doc_old, doc_a])) ''fracture'' 10 []
          (Some (ymd 1900 1 2)) None) = Inr [doc_a] \<and>
   snd (search demo_library (Some (Readable [doc_old, doc_a])) ''fracture'' 10 []
          None (Some sentinel_date)) = Inr [doc_old]"
proof -
  have ne: "ymd 1900 1 2 \<noteq> sentinel_date"
    by (simp add: ymd_def sentinel_date_def)
  have plain: "snd (search demo_library (Some (Readable [doc_old, doc_a])) ''fracture'' 10 []
      None None) = Inr [doc_old, doc_a]"
    by (simp add: search_def ensure_index_def demo_library_def strip_def rstrip_def lstrip_def
          is_space_def patient_mismatch_def before_from_def after_to_def)
  have f: "\<not> dated_from (ymd 1900 1 2) doc_old" "dated_from (ymd 1900 1 2) doc_a"
    by (simp_all add: dated_from_def date_le_def doc_old_def doc_a_def report_def ymd_def
          combine_def)
  have t: "dated_to sentinel_date doc_old" "\<not> dated_to sentinel_date doc_a"
    by (simp_all add: dated_to_def date_le_def doc_old_def doc_a_def report_def ymd_def
          combine_def sentinel_date_def)
  show ?thesis
    using sentinel_date_from_dropped
      [OF ne, of demo_library "Some (Readable [doc_old, doc_a])" "''fracture''" 10 "[]"
        None None sentinel_date]
    by (simp add: plain restrict_def f t ne)
qed

section \<open>Rejected input\<close>




text \<open>
  Claim C5. With an empty title the run ends with one warning: the stored documents and
  the saved files are those before the run, and no document id is made.
\<close>

theorem empty_title_rejected:
  "t_title = [] \<Longrightarrow>
     documents (index_dir (fst (index_document L st uploaded t_title t_patient t_date))) =
       documents (index_dir st) \<and>
     uploaded_reports (fst (index_document L st uploaded t_title t_patient t_date)) =
       uploaded_reports st \<and>
     snd (index_document L st uploaded t_title t_patient t_date) =
       [Warning (if uploaded = [] then ''Please upload at least one file.''
                 else ''Please enter a report title.'')]"
proof -
  assume e: "t_title = []"
  obtain dir1 ix msgs0 where o: "ensure_index (index_dir st) = (dir1, ix, msgs0)"
    by (cases "ensure_index (index_dir st)") auto
  then have d: "documents dir1 = documents (index_dir st)"
    using documents_ensure_index [of "index_dir st"] by simp
  show ?thesis
    using e o d by (simp add: index_document_def)
qed

theorem empty_title_rejected_witness:
  "([] :: string) = [] \<and>
   documents (index_dir (fst (index_document demo_library empty_state
      [(file_a, ''20240105093000123456'')] [] ''P1'' (ymd 2024 1 5)))) = [] \<and>
   uploaded_reports (fst (index_document demo_library empty_state
      [(file_a, ''20240105093000123456'')] [] ''P1'' (ymd 2024 1 5))) = Map.empty \<and>
   snd (index_document demo_library empty_state
      [(file_a, ''20240105093000123456'')] [] ''P1'' (ymd 2024 1 5)) =
     [Warning ''Please enter a report title.''] \<and>
   documents (index_dir (fst (index_document demo_library empty_state
      [(file_a, ''20240105093000123456'')] ''Chest Xray'' ''P1'' (ymd 2024 1 5)))) =
     [report ''a.txt_20240105093000123456'' ''Chest Xray'' ''P1'' (ymd 2024 1 5)
        ''fracture of left rib'']"
proof -
  have e: "([] :: string) = []"
    by simp
  have indexed: "documents (index_dir (fst (index_document demo_library empty_state
      [(file_a, ''20240105093000123456'')] ''Chest Xray'' ''P1'' (ymd 2024 1 5)))) =
     [report ''a.txt_20240105093000123456'' ''Chest Xray'' ''P1'' (ymd 2024 1 5)
        ''fracture of left rib'']"
    by code_simp
  show ?thesis
    using empty_title_rejected
      [OF e, of demo_library empty_state "[(file_a, ''20240105093000123456'')]" "''P1''"
        "ymd 2024 1 5"]
      indexed
    by (simp add: empty_state_def documents_def)
qed

section \<open>Document identifiers\<close>

text \<open>
  With a writer that accepts every document, the identifiers added by a batch are the
  file names followed by the clock readings, in upload order. They are distinct when no
  two files of the batch share both name and reading, the readings having one length.
\<close>

lemma index_loop_ids:
  "(\<And>d. w_add L d = None) \<Longrightarrow>
     map doc_id (fst (index_loop L t p dt ups (added, files, msgs))) =
       map doc_id added @ map (\<lambda>(uf, ts). name uf @ ''_'' @ ts) ups"
  by (induction ups arbitrary: added files msgs)
     (auto simp: Let_def split: prod.splits)

lemma stamped_ids_distinct:
  assumes "distinct (map (\<lambda>(uf, ts). (name uf, ts)) ups)"
    and "\<And>uf ts. (uf, ts) \<in> set ups \<Longrightarrow> length ts = n"
  shows "distinct (map (\<lambda>(uf, ts). name uf @ ''_'' @ ts) ups)"
proof -
  from assms(1) have d: "distinct ups"
    and i: "inj_on (\<lambda>(uf, ts). (name uf, ts)) (set ups)"
    by (simp_all add: distinct_map)
  have "inj_on (\<lambda>(uf, ts). name uf @ ''_'' @ ts) (set ups)"
  proof (rule inj_onI)
    fix x y
    assume x: "x \<in> set ups" and y: "y \<in> set ups"
      and e: "(case x of (uf, ts) \<Rightarrow> name uf @ ''_'' @ ts) =
              (case y of (uf, ts) \<Rightarrow> name uf @ ''_'' @ ts)"
    obtain uf ts where px: "x = (uf, ts)"
      by (cases x)
    obtain uf' ts' where py: "y = (uf', ts')"
      by (cases y)
    have "length ts = length ts'"
      using assms(2) x y px py by metis
    then have "name uf = name uf' \<and> ts = ts'"
      using e px py by simp
    then have "(case x of (uf, ts) \<Rightarrow> (name uf, ts)) = (case y of (uf, ts) \<Rightarrow> (name uf, ts))"
      using px py by simp
    then show "x = y"
      by (rule inj_onD [OF i _ x y])
  qed
  with d show ?thesis
    by (simp add: distinct_map)
qed

text \<open>
  Claim C6 fails on the code. The identifier is the file name followed by the clock
  reading; two files of one name whose iterations read the same microsecond get the same
  identifier, and both documents are stored.
\<close>

theorem doc_id_collision:
  "map doc_id (documents (index_dir (fst (index_document demo_library empty_state
      [(file_a, ''20240105093000123456''), (file_a, ''20240105093000123456'')]
      ''Chest Xray'' ''P1'' (ymd 2024 1 5))))) =
     [''a.txt_20240105093000123456'', ''a.txt_20240105093000123456''] \<and>
   \<not> distinct (map doc_id (documents (index_dir (fst (index_document demo_library empty_state
      [(file_a, ''20240105093000123456''), (file_a, ''20240105093000123456'')]
      ''Chest Xray'' ''P1'' (ymd 2024 1 5))))))"
proof -
  have "map doc_id (documents (index_dir (fst (index_document demo_library empty_state
      [(file_a, ''20240105093000123456''), (file_a, ''20240105093000123456'')]
      ''Chest Xray'' ''P1'' (ymd 2024 1 5))))) =
     [''a.txt_20240105093000123456'', ''a.txt_20240105093000123456'']"
    by code_simp
  then show ?thesis
    by simp
qed

section \<open>The index directory\<close>


text \<open>
  The loop that empties the directory. Over regular files it removes every entry whose
  name is listed; it stops with the exception of \<^verbatim>\<open>os.remove\<close> at the first
  sub-directory.
\<close>

lemma remove_each_regular:
  "regular_files fs \<Longrightarrow>
     remove_each fs present = (filter (\<lambda>e. fst e \<notin> fst ` set fs) present, None)"
proof (induction fs present rule: remove_each.induct)
  case (1 present)
  then show ?case by simp
next
  case (2 f fs present)
  then show ?case
    by (auto simp: regular_files_def intro!: filter_cong)
next
  case (3 f fs present)
  then show ?case by (simp add: regular_files_def)
qed

lemma remove_each_all:
  "regular_files entries \<Longrightarrow> remove_each entries entries = ([], None)"
  by (simp add: remove_each_regular filter_empty_conv)

lemma remove_each_subdirectory:
  "\<not> regular_files fs \<Longrightarrow> \<exists>left f. remove_each fs present = (left, Some (IsADirectoryError f))"
proof (induction fs present rule: remove_each.induct)
  case (1 present)
  then show ?case by (simp add: regular_files_def)
next
  case (2 f fs present)
  then show ?case by (simp add: regular_files_def)
next
  case (3 f fs present)
  then show ?case by simp
qed

text \<open>
  Where recovery fails: with a sub-directory among files that cannot be read, the
  exception of \<^verbatim>\<open>os.remove\<close> leaves \<^verbatim>\<open>ensure_index\<close> and no index is there after.
\<close>

lemma ensure_index_on_disk_raises:
  "\<not> regular_files entries \<Longrightarrow>
     \<exists>left f. ensure_index_on_disk created (Dir entries Corrupt) =
       (Dir left Corrupt, Inl (IsADirectoryError f), [])"
  using remove_each_subdirectory [of entries entries]
  by (auto simp: ensure_index_on_disk_def)

text \<open>
  On a missing path and on a directory of regular files the function is
  \<^const>\<open>ensure_index\<close> of the index directory the path stands for.
\<close>

lemma ensure_index_abstracts:
  "d = Absent \<or> (\<exists>entries files. d = Dir entries files \<and> regular_files entries) \<Longrightarrow>
     as_location (fst (ensure_index_on_disk created d)) = fst (ensure_index (as_location d)) \<and>
     fst (snd (ensure_index_on_disk created d)) = Inr (fst (snd (ensure_index (as_location d)))) \<and>
     snd (snd (ensure_index_on_disk created d)) = snd (snd (ensure_index (as_location d)))"
  by (auto simp: ensure_index_on_disk_def ensure_index_def remove_each_all split: index_files.splits)

text \<open>
  Claim C8, as the code has it. \<^verbatim>\<open>ensure_index\<close> returns an index and raises nothing
  when the path is missing (it makes the directory and an empty index), when the directory
  holds only regular files that \<^verbatim>\<open>index.open_dir\<close> cannot read (it removes every one
  of them and makes an empty index), and when \<^verbatim>\<open>index.open_dir\<close> opens what is there
  (it returns that index and touches nothing). On each of these paths it shows no message.
\<close>

theorem ensure_index_recovers:
  "ensure_index_on_disk created Absent = (Dir created (Readable []), Inr [], []) \<and>
   (regular_files entries \<longrightarrow>
      ensure_index_on_disk created (Dir entries Corrupt) = (Dir created (Readable []), Inr [], [])) \<and>
   ensure_index_on_disk created (Dir entries (Readable ds)) =
     (Dir entries (Readable ds), Inr ds, [])"
  by (simp add: ensure_index_on_disk_def remove_each_all)

theorem ensure_index_recovers_witness:
  "regular_files [(''_MAIN_1.toc'', RegularFile), (''MAIN_WRITELOCK'', RegularFile)] \<and>
   ensure_index_on_disk [(''_MAIN_0.toc'', RegularFile)]
       (Dir [(''_MAIN_1.toc'', RegularFile), (''MAIN_WRITELOCK'', RegularFile)] Corrupt) =
     (Dir [(''_MAIN_0.toc'', RegularFile)] (Readable []), Inr [], []) \<and>
   ensure_index_on_disk [(''_MAIN_0.toc'', RegularFile)]
       (Dir [(''_MAIN_1.toc'', RegularFile), (''MAIN_WRITELOCK'', RegularFile)] (Readable [doc_a])) =
     (Dir [(''_MAIN_1.toc'', RegularFile), (''MAIN_WRITELOCK'', RegularFile)] (Readable [doc_a]),
      Inr [doc_a], []) \<and>
   ensure_index_on_disk [(''_MAIN_0.toc'', RegularFile)]
       (Dir [(''_MAIN_1.toc'', RegularFile), (''cache'', SubDirectory)] Corrupt) =
     (Dir [(''cache'', SubDirectory)] Corrupt, Inl (IsADirectoryError ''cache''), [])"
proof -
  have r: "regular_files [(''_MAIN_1.toc'', RegularFile), (''MAIN_WRITELOCK'', RegularFile)]"
    by (simp add: regular_files_def)
  have s: "ensure_index_on_disk [(''_MAIN_0.toc'', RegularFile)]
       (Dir [(''_MAIN_1.toc'', RegularFile), (''cache'', SubDirectory)] Corrupt) =
     (Dir [(''cache'', SubDirectory)] Corrupt, Inl (IsADirectoryError ''cache''), [])"
    by (simp add: ensure_index_on_disk_def)
  show ?thesis
    using ensure_index_recovers
        [of "[(''_MAIN_0.toc'', RegularFile)]"
          "[(''_MAIN_1.toc'', RegularFile), (''MAIN_WRITELOCK'', RegularFile)]" "[doc_a]"] r s
    by simp
qed

text \<open>Against claim C8 as stated: recovering from unreadable files surfaces no warning.\<close>

theorem ensure_index_silent:
  "\<not> (\<exists>w. Warning w \<in> set (snd (snd (ensure_index (Some Corrupt)))))"
  by (simp add: ensure_index_def)

end
